theory Spec2Isabelle
  imports Complex_Main
begin

section \<open>JavaScript values, errors and results\<close>

text \<open>
  The values that reach the two normalizers. The normalizers themselves look at a value
  only to ask whether it is \<open>undefined\<close>, \<open>null\<close> or the empty string; everything else
  is handed to the type validator, the primary-key coercer or the rule validator.
  \<open>JNum\<close> carries the finite numbers; \<open>JOther\<close> stands for every other JavaScript
  value (functions, \<open>NaN\<close>, the infinities, objects with circular references, ...),
  told apart by a tag.
\<close>

datatype jsval =
    JUndefined
  | JNull
  | JBool bool
  | JNum real
  | JStr string
  | JArr "jsval list"
  | JDict "(string \<times> jsval) list"
  | JOther nat

text \<open>One entry of the list a failed rule check carries: \<open>{rule, message}\<close>.\<close>

datatype violation = Violation (rule: string) (vmessage: string)

text \<open>
  A thrown \<open>Error\<close>: its \<open>code\<close> property (\<open>None\<close> when the error has none), its
  message, and the \<open>ruleViolations\<close> property that only \<open>E_VIOLATES_RULES\<close> sets.
\<close>

datatype jserror =
  JSError (code: "string option") (message: string) (ruleViolations: "violation list option")

text \<open>\<open>new Error(msg)\<close>, \<open>flaverr(code, new Error(msg))\<close> and a failed \<open>assert\<close>.\<close>

definition Error :: "string \<Rightarrow> jserror" where
  "Error msg = JSError None msg None"

definition flaverr :: "string \<Rightarrow> jserror \<Rightarrow> jserror" where
  "flaverr c e = JSError (Some c) (message e) (ruleViolations e)"

definition AssertionError :: "string \<Rightarrow> jserror" where
  "AssertionError msg = JSError (Some ''ERR_ASSERTION'') msg None"

section \<open>Schema: attribute definitions, models, the ORM\<close>

text \<open>
  An attribute definition as the normalizers read it. \<open>type\<close>, \<open>model\<close> and
  \<open>collection\<close> are \<open>None\<close> when the property is not set; \<open>required\<close>,
  \<open>autoCreatedAt\<close> and \<open>autoUpdatedAt\<close> hold the truthiness of the property, which is
  all the code tests; \<open>defaultsTo\<close> is \<open>JUndefined\<close> when not set; \<open>validations\<close>
  is the ruleset, a dictionary from rule names to their settings.
\<close>

type_synonym ruleset = "(string \<times> jsval) list"

record attrDef =
  type :: "string option"
  model :: "string option"
  collection :: "string option"
  required :: bool
  autoCreatedAt :: bool
  autoUpdatedAt :: bool
  defaultsTo :: jsval
  validations :: "ruleset option"

text \<open>
  A model: \<open>hasSchema\<close> is kept as the value it is, since the code compares it with
  \<open>=== true\<close> and \<open>=== false\<close> and treats anything else as a consistency violation.
\<close>

record WLModel =
  hasSchema :: jsval
  primaryKey :: string
  attributes :: "string \<rightharpoonup> attrDef"

type_synonym orm = "string \<rightharpoonup> WLModel"

text \<open>JavaScript truthiness of a property that is a string when set.\<close>

definition truthy :: "string option \<Rightarrow> bool" where
  "truthy p = (case p of None \<Rightarrow> False | Some s \<Rightarrow> s \<noteq> '''')"

section \<open>The external primitives\<close>

text \<open>
  The libraries and helpers the normalizers call are not among the sources: \<open>rttc\<close>
  (\<open>rttc.validate\<close>, \<open>rttc.coerce\<close>), \<open>anchor\<close>, \<open>util.inspect\<close>, and the helpers
  \<open>normalize-pk-value\<close> and \<open>is-valid-attribute-name\<close>. They are parameters of the
  model. Each of the fallible ones returns the value or the error it throws.
  \<open>toStr\<close> is the string a value turns into when it is concatenated to a string.
\<close>

record prims =
  rttc_validate :: "string option \<Rightarrow> jsval \<Rightarrow> jserror + jsval"
  rttc_coerce :: "string \<Rightarrow> jsval"
  anchor :: "jsval \<Rightarrow> ruleset \<Rightarrow> jserror + violation list"
  normalizePkValue :: "jsval \<Rightarrow> string option \<Rightarrow> jserror + jsval"
  isValidAttributeName :: "string \<Rightarrow> bool"
  inspect :: "jsval \<Rightarrow> string"
  inspectAttrDef :: "attrDef \<Rightarrow> string"
  toStr :: "jsval \<Rightarrow> string"

text \<open>
  Modelled from the spec: \<open>ontology/get-model\<close> and \<open>ontology/get-attribute\<close> are
  not among the sources. The spec (4.4): \<open>getModel(identity) -> ModelSchema |
  NotRegistered\<close>, \<open>getAttribute(name, identity) -> AttributeDefinition |
  NotRegistered\<close>; the error codes are the ones the callers dispatch on.
\<close>

definition getModel :: "string \<Rightarrow> orm \<Rightarrow> jserror + WLModel" where
  "getModel modelIdentity orm =
     (case orm modelIdentity of
        None \<Rightarrow> Inl (flaverr ''E_MODEL_NOT_REGISTERED''
                 (Error (''No such model (`'' @ modelIdentity @ ''`) has been registered.'')))
      | Some m \<Rightarrow> Inr m)"

definition getAttribute :: "string \<Rightarrow> string \<Rightarrow> orm \<Rightarrow> jserror + attrDef" where
  "getAttribute attrName modelIdentity orm =
     (case getModel modelIdentity orm of
        Inl e \<Rightarrow> Inl e
      | Inr m \<Rightarrow>
          (case attributes m attrName of
             None \<Rightarrow> Inl (flaverr ''E_ATTR_NOT_REGISTERED''
                      (Error (''No such attribute (`'' @ attrName @ ''`) exists in model (`''
                              @ modelIdentity @ ''`).'')))
           | Some a \<Rightarrow> Inr a))"

text \<open>
  The type of the primary key of the model \<open>identity\<close>:
  \<open>getAttribute(getModel(identity, orm).primaryKey, identity, orm).type\<close>.
\<close>

definition pkTypeOf :: "string \<Rightarrow> orm \<Rightarrow> jserror + string option" where
  "pkTypeOf identity orm =
     (case getModel identity orm of
        Inl e \<Rightarrow> Inl e
      | Inr m \<Rightarrow>
          (case getAttribute (primaryKey m) identity orm of
             Inl e \<Rightarrow> Inl e
           | Inr pk \<Rightarrow> Inr (type pk)))"

section \<open>The filter value normalizer (normalize-vs-attribute.js)\<close>

definition msgNoValue :: "prims \<Rightarrow> jsval \<Rightarrow> string" where
  "msgNoValue P v =
     ''This internal utility must always be called with a first argument (the value to normalize).  But instead, got: ''
     @ inspect P v"

definition msgPluralFilter :: string where
  "msgPluralFilter =
     ''Should not call this internal utility on a plural association (i.e. `collection` attribute).''"

definition msgFilterNotJson :: "string \<Rightarrow> string" where
  "msgFilterNotJson emsg =
     ''There is no such attribute declared by this model... which is fine, ''
     @ ''because the model supports unrecognized attributes (`schema: false`).  ''
     @ ''However, all filters/values for unrecognized attributes must be ''
     @ ''JSON-compatible, and this one is not.  '' @ emsg"

definition msgFilterNotPk :: "string \<Rightarrow> string \<Rightarrow> string \<Rightarrow> string" where
  "msgFilterNotPk attrName target emsg =
     ''The corresponding attribute (`'' @ attrName @ ''`) is a singular ('' @ [CHR 0x22]
     @ ''model'' @ [CHR 0x22] @ '') association, ''
     @ ''but the provided value does not match the declared type of the primary key attribute ''
     @ ''for the associated model (`'' @ target @ ''`).  '' @ emsg"

definition msgFilterNotType :: "string \<Rightarrow> string" where
  "msgFilterNotType emsg =
     ''Does not match the declared data type of the corresponding attribute.  '' @ emsg"

definition msgNoShape :: "prims \<Rightarrow> string \<Rightarrow> attrDef \<Rightarrow> string" where
  "msgNoShape P attrName a =
     ''There is no way this attribute (`'' @ attrName
     @ ''`) should have been allowed to be registered with neither a `type`, `model`, nor `collection`!  Here is the attr def: ''
     @ inspectAttrDef P a"

text \<open>
  The \<open>try { value = rttc.validate(..) } catch (e) { switch (e.code) .. }\<close> of the
  filter normalizer: an \<open>E_INVALID\<close> becomes \<open>E_VALUE_NOT_USABLE\<close> with the given
  message, any other error is thrown again as it is.
\<close>

definition validateForFilter ::
  "prims \<Rightarrow> string option \<Rightarrow> jsval \<Rightarrow> (string \<Rightarrow> string) \<Rightarrow> jserror + jsval" where
  "validateForFilter P ty v msg =
     (case rttc_validate P ty v of
        Inr v' \<Rightarrow> Inr v'
      | Inl e \<Rightarrow>
          if code e = Some ''E_INVALID''
          then Inl (flaverr ''E_VALUE_NOT_USABLE'' (Error (msg (message e))))
          else Inl e)"

text \<open>
  \<open>normalizeVsAttribute(value, attrName, modelIdentity, orm)\<close>. The assertions on
  \<open>attrName\<close>, \<open>modelIdentity\<close> and \<open>orm\<close> hold by typing; the one on \<open>value\<close> is
  the first branch. \<open>WLModel.attributes[attrName]\<close> is read directly, not through
  \<open>getAttribute\<close>.
\<close>

definition normalizeVsAttribute ::
  "prims \<Rightarrow> jsval \<Rightarrow> string \<Rightarrow> string \<Rightarrow> orm \<Rightarrow> jserror + jsval" where
  "normalizeVsAttribute P v attrName modelIdentity orm =
     (if v = JUndefined then Inl (AssertionError (msgNoValue P v))
      else case getModel modelIdentity orm of
        Inl e \<Rightarrow> Inl e
      | Inr m \<Rightarrow>
          (case attributes m attrName of
             None \<Rightarrow>
               if v = JNull then Inr v
               else validateForFilter P (Some ''json'') v msgFilterNotJson
           | Some a \<Rightarrow>
               if truthy (collection a) then Inl (AssertionError msgPluralFilter)
               else if v = JNull then Inr v
               else if truthy (model a) then
                 (case pkTypeOf (the (model a)) orm of
                    Inl e \<Rightarrow> Inl e
                  | Inr associatedPkType \<Rightarrow>
                      validateForFilter P associatedPkType v
                        (msgFilterNotPk attrName (the (model a))))
               else if \<not> truthy (type a) then Inl (AssertionError (msgNoShape P attrName a))
               else validateForFilter P (type a) v msgFilterNotType))"

section \<open>The write value normalizer (normalize-value-to-set.js)\<close>

subsection \<open>Messages\<close>

definition msgAttrNameEmpty :: string where
  "msgAttrNameEmpty = ''`supposedAttrName` must be a non-empty string.''"

definition msgSchemaTrueUnknown :: string where
  "msgSchemaTrueUnknown =
     ''This model declares itself `schema: true`, but this value does not match ''
     @ ''any recognized attribute (thus it will be ignored).''"

definition msgBadAttrName :: string where
  "msgBadAttrName = ''This is not a valid name for an attribute.''"

definition msgHasSchemaUnset :: "prims \<Rightarrow> string \<Rightarrow> jsval \<Rightarrow> string" where
  "msgHasSchemaUnset P modelIdentity hs =
     ''Consistency violation: Every instantiated Waterline model should always have the `hasSchema` flag ''
     @ ''as either `true` or `false` (should have been automatically derived from the `schema` model setting ''
     @ ''shortly after construction.  And `schema` should have been verified as existing by waterline-schema).  ''
     @ ''But somehow, this model's (`'' @ modelIdentity @ ''`) `hasSchema` property is as follows: ''
     @ inspect P hs"

definition msgUndefined :: string where
  "msgUndefined =
     ''This value is `undefined`.  Remember: in Sails/Waterline, we always treat keys with ''
     @ ''`undefined` values as if they were never there in the first place.''"

definition msgInvalidPk :: "string \<Rightarrow> string" where
  "msgInvalidPk emsg = ''Invalid primary key value.  '' @ emsg"

definition msgNoCollectionAttrs :: "prims \<Rightarrow> string \<Rightarrow> jsval \<Rightarrow> string" where
  "msgNoCollectionAttrs P attrName v =
     ''This kind of query does not allow values to be set for plural (`collection`) associations ''
     @ ''(instead, you should use `replaceCollection()`).  But instead, for `'' @ attrName @ ''`, ''
     @ ''got: '' @ inspect P v"

definition msgBadCollection :: "prims \<Rightarrow> string \<Rightarrow> jsval \<Rightarrow> string" where
  "msgBadCollection P attrName v =
     ''If specifying the value for a plural (`collection`) association, you must do so by ''
     @ ''providing an array of associated ids representing the associated records.  But instead, ''
     @ ''for `'' @ attrName @ ''`, got: '' @ inspect P v"

definition msgNullRequiredAssoc :: "string \<Rightarrow> string" where
  "msgNullRequiredAssoc attrName =
     ''Cannot set `null` as the value for `'' @ attrName @ ''`.  `null` _can_ be ''
     @ ''used as a value for some singular ('' @ [CHR 0x22] @ ''model'' @ [CHR 0x22]
     @ '') associations, but only if they ''
     @ ''are optional.  (This one is `required: true`.)''"

definition msgBadAssocId :: "string \<Rightarrow> string \<Rightarrow> string" where
  "msgBadAssocId attrName emsg =
     ''Expecting an id representing the associated record, or `null` to indicate ''
     @ ''there will be no associated record.  But the specified value is not a valid ''
     @ ''`'' @ attrName @ ''`.  '' @ emsg"

definition msgEmptyTimestamp :: "string \<Rightarrow> string" where
  "msgEmptyTimestamp attrName =
     ''Cannot set the specified value for attribute `'' @ attrName @ ''`: ''
     @ [CHR 0x27, CHR 0x27] @ '' (empty string).  ''
     @ ''Depending on this attribute's type, it expects to be set to either a JSON timestamp (ISO 8601) ''
     @ ''or JS timestamp (unix epoch ms).''"

text \<open>
  The two inline functions of the message for \<open>null\<close>: the phrase naming the base
  value of the declared type, and the note added when no \<open>defaultsTo\<close> is declared.
\<close>

definition getBaseValuePhrase :: "prims \<Rightarrow> string \<Rightarrow> string" where
  "getBaseValuePhrase P ty =
     (if ty = ''string'' then ''`'' @ [CHR 0x27, CHR 0x27] @ ''` (empty string)''
      else if ty = ''number'' then ''`0` (zero)''
      else ''`'' @ toStr P (rttc_coerce P ty) @ ''`'')"

definition getExtraPhrase :: "string \<Rightarrow> attrDef \<Rightarrow> string" where
  "getExtraPhrase attrName a =
     (if defaultsTo a = JUndefined
      then ''Also note: Since this attribute does not define a `defaultsTo`, ''
           @ ''the base value will be used as an implicit default if `'' @ attrName @ ''` ''
           @ ''is omitted when creating a record.''
      else [])"

definition msgNullNotAllowed :: "prims \<Rightarrow> string \<Rightarrow> attrDef \<Rightarrow> string" where
  "msgNullNotAllowed P attrName a =
     ''Specified value (`null`) is not a valid `'' @ attrName @ ''`.  ''
     @ ''Even though this attribute is optional, it still does not allow `null` to ''
     @ ''be explicitly set, because `null` is not valid vs. the expected ''
     @ ''type: '' @ [CHR 0x27] @ the (type a) @ [CHR 0x27] @ ''.  Instead, to indicate ''
     @ [CHR 0x22] @ ''voidness'' @ [CHR 0x22] @ '', ''
     @ ''please set the value for this attribute to the base value for its type, ''
     @ getBaseValuePhrase P (the (type a))
     @ ''.  (Or, if you specifically need to save `null`, then change this ''
     @ ''attribute to either `type: '' @ [CHR 0x27] @ ''json'' @ [CHR 0x27]
     @ ''` or `type: ref`.)  ''
     @ getExtraPhrase attrName a"

text \<open>The message ends with \<open>e.stack\<close>, which begins with the message of \<open>e\<close>.\<close>

definition msgRulesCrashed :: "string \<Rightarrow> jserror \<Rightarrow> string" where
  "msgRulesCrashed attrName e =
     ''Consistency violation: Unexpected error occurred when attempting to apply ''
     @ ''high-level validation rules from attribute `'' @ attrName @ ''`.  '' @ message e"

definition msgViolatedRules :: string where
  "msgViolatedRules = ''Internal: Violated one or more validation rules.''"

definition msgNotAnArray :: string where
  "msgNotAnArray = ''Expecting an array of primary key values.''"

subsection \<open>normalizePkValues\<close>

text \<open>
  Modelled from the spec: \<open>normalize-pk-values.js\<close> is not among the sources. The
  spec (4.4): \<open>normalizeKeys(values[], typeTag) -> Value[] | InvalidKeyValue\<close> (fails
  on first invalid element); (4.2) the value is required to be an array, and each
  element is coerced as a primary-key value of the given type.
\<close>

fun normalizeEachPk :: "prims \<Rightarrow> jsval list \<Rightarrow> string option \<Rightarrow> jserror + jsval list" where
  "normalizeEachPk P [] ty = Inr []"
| "normalizeEachPk P (x # xs) ty =
     (case normalizePkValue P x ty of
        Inl e \<Rightarrow> Inl e
      | Inr y \<Rightarrow>
          (case normalizeEachPk P xs ty of
             Inl e \<Rightarrow> Inl e
           | Inr ys \<Rightarrow> Inr (y # ys)))"

definition normalizePkValues :: "prims \<Rightarrow> jsval \<Rightarrow> string option \<Rightarrow> jserror + jsval" where
  "normalizePkValues P v ty =
     (case v of
        JArr xs \<Rightarrow>
          (case normalizeEachPk P xs ty of
             Inl e \<Rightarrow> Inl e
           | Inr ys \<Rightarrow> Inr (JArr ys))
      | _ \<Rightarrow> Inl (flaverr ''E_INVALID_PK_VALUE'' (Error msgNotAnArray)))"

subsection \<open>normalizeValueToSet\<close>

text \<open>
  The \<open>try { .. } catch (e) { switch (e.code) { case 'E_INVALID_PK_VALUE': .. } }\<close>
  around the calls of the primary-key coercers: that code becomes
  \<open>E_HIGHLY_IRREGULAR\<close> with the given message, any other error is thrown again.
\<close>

definition catchInvalidPk :: "jserror + jsval \<Rightarrow> (string \<Rightarrow> string) \<Rightarrow> jserror + jsval" where
  "catchInvalidPk r msg =
     (case r of
        Inr v' \<Rightarrow> Inr v'
      | Inl e \<Rightarrow>
          if code e = Some ''E_INVALID_PK_VALUE''
          then Inl (flaverr ''E_HIGHLY_IRREGULAR'' (Error (msg (message e))))
          else Inl e)"

text \<open>
  The plain-attribute branch (the last \<open>else\<close>): the assertion on \<open>type\<close>, the
  timestamp guard, the special case of \<open>null\<close>, the loose validation, the ruleset.
  The assertion that a ruleset is a dictionary holds by typing.
\<close>

definition isProvidingNullForIncompatibleOptionalAttr :: "jsval \<Rightarrow> attrDef \<Rightarrow> bool" where
  "isProvidingNullForIncompatibleOptionalAttr v a =
     (v = JNull \<and> type a \<noteq> Some ''json'' \<and> type a \<noteq> Some ''ref'' \<and> \<not> required a)"

definition checkRules :: "prims \<Rightarrow> jsval \<Rightarrow> string \<Rightarrow> attrDef \<Rightarrow> jserror + jsval" where
  "checkRules P v attrName a =
     (case validations a of
        None \<Rightarrow> Inr v
      | Some rs \<Rightarrow>
          if v = JNull then Inr v
          else (case anchor P v rs of
                  Inl e \<Rightarrow> Inl (Error (msgRulesCrashed attrName e))
                | Inr violations \<Rightarrow>
                    if length violations > 0
                    then Inl (JSError (Some ''E_VIOLATES_RULES'') msgViolatedRules
                               (Some violations))
                    else Inr v))"

definition normalizePlainValue :: "prims \<Rightarrow> jsval \<Rightarrow> string \<Rightarrow> attrDef \<Rightarrow> jserror + jsval" where
  "normalizePlainValue P v attrName a =
     (if \<not> truthy (type a) then Inl (AssertionError (msgNoShape P attrName a))
      else if v = JStr [] \<and> (autoCreatedAt a \<or> autoUpdatedAt a)
        then Inl (flaverr ''E_HIGHLY_IRREGULAR'' (Error (msgEmptyTimestamp attrName)))
      else if isProvidingNullForIncompatibleOptionalAttr v a
        then Inl (flaverr ''E_INVALID'' (Error (msgNullNotAllowed P attrName a)))
      else (case rttc_validate P (type a) v of
              Inl e \<Rightarrow> Inl e
            | Inr v' \<Rightarrow> checkRules P v' attrName a))"

text \<open>
  \<open>normalizeValueToSet(value, supposedAttrName, modelIdentity, orm,
  allowCollectionAttrs)\<close>.
\<close>

definition normalizeValueToSet ::
  "prims \<Rightarrow> jsval \<Rightarrow> string \<Rightarrow> string \<Rightarrow> orm \<Rightarrow> bool \<Rightarrow> jserror + jsval" where
  "normalizeValueToSet P v supposedAttrName modelIdentity orm allowCollectionAttrs =
     (if supposedAttrName = [] then Inl (AssertionError msgAttrNameEmpty)
      else case getModel modelIdentity orm of
        Inl e \<Rightarrow>
          if code e = Some ''E_MODEL_NOT_REGISTERED''
          then Inl (Error (''Consistency violation: '' @ message e))
          else Inl e
      | Inr m \<Rightarrow>
          (case (case getAttribute supposedAttrName modelIdentity orm of
                   Inr a \<Rightarrow> Inr (Some a)
                 | Inl e \<Rightarrow> if code e = Some ''E_ATTR_NOT_REGISTERED'' then Inr None else Inl e) of
             Inl e \<Rightarrow> Inl e
           | Inr correspondingAttrDef \<Rightarrow>
               if hasSchema m = JBool True \<and> correspondingAttrDef = None
                 then Inl (flaverr ''E_SHOULD_BE_IGNORED'' (Error msgSchemaTrueUnknown))
               else if hasSchema m = JBool False \<and> \<not> isValidAttributeName P supposedAttrName
                 then Inl (flaverr ''E_HIGHLY_IRREGULAR'' (Error msgBadAttrName))
               else if hasSchema m \<noteq> JBool True \<and> hasSchema m \<noteq> JBool False
                 then Inl (Error (msgHasSchemaUnset P modelIdentity (hasSchema m)))
               else if v = JUndefined
                 then Inl (flaverr ''E_SHOULD_BE_IGNORED'' (Error msgUndefined))
               else (case correspondingAttrDef of
                  None \<Rightarrow> rttc_validate P (Some ''json'') v
                | Some a \<Rightarrow>
                    if primaryKey m = supposedAttrName then
                      catchInvalidPk (normalizePkValue P v (type a)) msgInvalidPk
                    else if truthy (collection a) then
                      (if \<not> allowCollectionAttrs
                       then Inl (flaverr ''E_HIGHLY_IRREGULAR''
                                  (Error (msgNoCollectionAttrs P supposedAttrName v)))
                       else catchInvalidPk
                              (case pkTypeOf (the (collection a)) orm of
                                 Inl e \<Rightarrow> Inl e
                               | Inr ty \<Rightarrow> normalizePkValues P v ty)
                              (\<lambda>emsg. msgBadCollection P supposedAttrName v))
                    else if truthy (model a) then
                      (if v = JNull then
                         (if required a
                          then Inl (flaverr ''E_HIGHLY_IRREGULAR''
                                     (Error (msgNullRequiredAssoc supposedAttrName)))
                          else Inr v)
                       else catchInvalidPk
                              (case pkTypeOf (the (model a)) orm of
                                 Inl e \<Rightarrow> Inl e
                               | Inr ty \<Rightarrow> normalizePkValue P v ty)
                              (msgBadAssocId supposedAttrName))
                    else normalizePlainValue P v supposedAttrName a)))"

section \<open>The public entry point (methods/validate.js)\<close>

text \<open>
  \<open>validate(attrName, value)\<close> on a model: the write value normalizer for the model's
  identity and ORM, without the fifth argument (so plural associations are not allowed);
  the \<open>catch\<close> throws every error again as it is.
\<close>

definition validate :: "prims \<Rightarrow> string \<Rightarrow> orm \<Rightarrow> string \<Rightarrow> jsval \<Rightarrow> jserror + jsval" where
  "validate P identity waterline attrName v =
     normalizeValueToSet P v attrName identity waterline False"

section \<open>An instance of the primitives, and a small ORM\<close>

text \<open>
  Modelled from the spec: \<open>rttc\<close>, \<open>anchor\<close>, \<open>normalize-pk-value\<close> and
  \<open>is-valid-attribute-name\<close> are not among the sources. This instance follows what the
  spec says of them (2 and 4.4: loose validation accepts values convertible to the type
  tag, as numeric strings to numbers; the primary-key coercer is stricter and rejects
  fractional numbers; the rule validator returns the list of violated rules; the examples
  of 8) and the comment of the source that in RTTC \<open>null\<close> is only valid vs. \<open>json\<close>
  and \<open>ref\<close>. The normalizers are run with it at concrete inputs; the general theorems
  hold for every instance.
\<close>

fun isJson :: "jsval \<Rightarrow> bool" where
  "isJson JUndefined = False"
| "isJson JNull = True"
| "isJson (JBool b) = True"
| "isJson (JNum n) = True"
| "isJson (JStr s) = True"
| "isJson (JArr xs) = list_all isJson xs"
| "isJson (JDict kvs) = list_all (\<lambda>kv. isJson (snd kv)) kvs"
| "isJson (JOther n) = False"

definition isDigit :: "char \<Rightarrow> bool" where
  "isDigit c = (c \<in> set ''0123456789'')"

definition isNumeric :: "string \<Rightarrow> bool" where
  "isNumeric s = (s \<noteq> [] \<and> list_all isDigit s)"

definition digitsToNat :: "string \<Rightarrow> nat" where
  "digitsToNat s = foldl (\<lambda>n c. 10 * n + (of_char c - 48)) 0 s"

definition specInvalid :: "jserror + jsval" where
  "specInvalid = Inl (flaverr ''E_INVALID'' (Error ''Invalid value for the expected type.''))"

definition specValidate :: "string option \<Rightarrow> jsval \<Rightarrow> jserror + jsval" where
  "specValidate ty v =
     (if ty = Some ''string'' then (case v of JStr s \<Rightarrow> Inr v | _ \<Rightarrow> specInvalid)
      else if ty = Some ''number'' then
        (case v of
           JNum n \<Rightarrow> Inr v
         | JStr s \<Rightarrow> if isNumeric s then Inr (JNum (real (digitsToNat s))) else specInvalid
         | _ \<Rightarrow> specInvalid)
      else if ty = Some ''boolean'' then (case v of JBool b \<Rightarrow> Inr v | _ \<Rightarrow> specInvalid)
      else if ty = Some ''json'' then (if isJson v then Inr v else specInvalid)
      else if ty = Some ''ref'' then (if v \<noteq> JUndefined then Inr v else specInvalid)
      else specInvalid)"

definition specCoerce :: "string \<Rightarrow> jsval" where
  "specCoerce ty =
     (if ty = ''string'' then JStr []
      else if ty = ''number'' then JNum 0
      else if ty = ''boolean'' then JBool False
      else JNull)"

definition specInvalidPk :: "jserror + jsval" where
  "specInvalidPk = Inl (flaverr ''E_INVALID_PK_VALUE'' (Error ''Not a valid primary key value.''))"

definition specNormalizePkValue :: "jsval \<Rightarrow> string option \<Rightarrow> jserror + jsval" where
  "specNormalizePkValue v ty =
     (if ty = Some ''number'' then
        (case v of
           JNum n \<Rightarrow> if n = real_of_int \<lfloor>n\<rfloor> then Inr v else specInvalidPk
         | JStr s \<Rightarrow> if isNumeric s then Inr (JNum (real (digitsToNat s))) else specInvalidPk
         | _ \<Rightarrow> specInvalidPk)
      else if ty = Some ''string'' then
        (case v of
           JStr s \<Rightarrow> if s \<noteq> [] then Inr v else specInvalidPk
         | _ \<Rightarrow> specInvalidPk)
      else specInvalidPk)"

definition ruleViolated :: "jsval \<Rightarrow> string \<times> jsval \<Rightarrow> bool" where
  "ruleViolated v r =
     (if fst r = ''min'' then
        (case v of JNum x \<Rightarrow> (case snd r of JNum b \<Rightarrow> x < b | _ \<Rightarrow> True) | _ \<Rightarrow> True)
      else if fst r = ''max'' then
        (case v of JNum x \<Rightarrow> (case snd r of JNum b \<Rightarrow> b < x | _ \<Rightarrow> True) | _ \<Rightarrow> True)
      else if fst r = ''minLength'' then
        (case v of JStr s \<Rightarrow> (case snd r of JNum b \<Rightarrow> real (length s) < b | _ \<Rightarrow> True)
                 | _ \<Rightarrow> True)
      else if fst r = ''maxLength'' then
        (case v of JStr s \<Rightarrow> (case snd r of JNum b \<Rightarrow> b < real (length s) | _ \<Rightarrow> True)
                 | _ \<Rightarrow> True)
      else if fst r = ''isIn'' then
        (case snd r of JArr xs \<Rightarrow> v \<notin> set xs | _ \<Rightarrow> True)
      else False)"

definition specAnchor :: "jsval \<Rightarrow> ruleset \<Rightarrow> jserror + violation list" where
  "specAnchor v rs =
     Inr (map (\<lambda>r. Violation (fst r) (''Value violates the `'' @ fst r @ ''` rule.''))
            (filter (ruleViolated v) rs))"

definition specIsValidAttributeName :: "string \<Rightarrow> bool" where
  "specIsValidAttributeName s =
     (s \<noteq> [] \<and>
      list_all (\<lambda>c. c \<in> set ''abcdefghijklmnopqrstuvwxyzABCDEFGHIJKLMNOPQRSTUVWXYZ0123456789_$'') s)"

fun specToStr :: "jsval \<Rightarrow> string" where
  "specToStr JUndefined = ''undefined''"
| "specToStr JNull = ''null''"
| "specToStr (JBool b) = (if b then ''true'' else ''false'')"
| "specToStr (JStr s) = s"
| "specToStr v = ''[value]''"

definition specPrims :: prims where
  "specPrims =
     \<lparr> rttc_validate = specValidate,
       rttc_coerce = specCoerce,
       anchor = specAnchor,
       normalizePkValue = specNormalizePkValue,
       isValidAttributeName = specIsValidAttributeName,
       inspect = specToStr,
       inspectAttrDef = (\<lambda>a. ''[attribute definition]''),
       toStr = specToStr \<rparr>"

text \<open>
  A small ORM in the shape of the spec's example scenarios: \<open>user\<close> and \<open>pet\<close> are
  strict (\<open>schema: true\<close>), \<open>widget\<close> is loose (\<open>schema: false\<close>).
\<close>

definition plainAttr :: "string \<Rightarrow> attrDef" where
  "plainAttr ty =
     \<lparr> type = Some ty, model = None, collection = None, required = False,
       autoCreatedAt = False, autoUpdatedAt = False, defaultsTo = JUndefined,
       validations = None \<rparr>"

definition modelAttr :: "string \<Rightarrow> attrDef" where
  "modelAttr target = (plainAttr [])\<lparr> type := None, model := Some target \<rparr>"

definition collectionAttr :: "string \<Rightarrow> attrDef" where
  "collectionAttr target = (plainAttr [])\<lparr> type := None, collection := Some target \<rparr>"

definition userModel :: WLModel where
  "userModel =
     \<lparr> hasSchema = JBool True, primaryKey = ''id'',
       attributes =
         [ ''id'' \<mapsto> (plainAttr ''number'')\<lparr> required := True \<rparr>,
           ''name'' \<mapsto> (plainAttr ''string'')\<lparr> required := True \<rparr>,
           ''nickname'' \<mapsto> plainAttr ''string'',
           ''age'' \<mapsto> plainAttr ''number'',
           ''handle'' \<mapsto> (plainAttr ''string'')
              \<lparr> validations := Some [(''minLength'', JNum 5),
                                     (''isIn'', JArr [JStr ''alpha'', JStr ''omega''])] \<rparr>,
           ''settings'' \<mapsto> (plainAttr ''json'')
              \<lparr> validations := Some [(''isIn'', JArr [JStr ''on'', JStr ''off''])] \<rparr>,
           ''pets'' \<mapsto> collectionAttr ''pet'' ] \<rparr>"

definition petModel :: WLModel where
  "petModel =
     \<lparr> hasSchema = JBool True, primaryKey = ''id'',
       attributes =
         [ ''id'' \<mapsto> (plainAttr ''number'')\<lparr> required := True \<rparr>,
           ''owner'' \<mapsto> modelAttr ''user'',
           ''keeper'' \<mapsto> (modelAttr ''user'')\<lparr> required := True \<rparr>,
           ''createdAt'' \<mapsto> (plainAttr ''number'')\<lparr> autoCreatedAt := True \<rparr> ] \<rparr>"

definition widgetModel :: WLModel where
  "widgetModel =
     \<lparr> hasSchema = JBool False, primaryKey = ''id'',
       attributes = [ ''id'' \<mapsto> (plainAttr ''number'')\<lparr> required := True \<rparr> ] \<rparr>"

definition demoOrm :: orm where
  "demoOrm = [ ''user'' \<mapsto> userModel, ''pet'' \<mapsto> petModel, ''widget'' \<mapsto> widgetModel ]"

section \<open>Properties\<close>

lemmas lookup_defs = getModel_def getAttribute_def pkTypeOf_def

lemmas error_defs = flaverr_def Error_def AssertionError_def

lemmas demo_defs = demoOrm_def userModel_def petModel_def widgetModel_def
  plainAttr_def modelAttr_def collectionAttr_def

lemmas spec_defs = specPrims_def specValidate_def specNormalizePkValue_def specAnchor_def
  specIsValidAttributeName_def specInvalid_def specInvalidPk_def specCoerce_def
  isNumeric_def isDigit_def digitsToNat_def ruleViolated_def

subsection \<open>Filters: null\<close>




subsection \<open>Writes: unknown attributes of a strict schema\<close>

text \<open>
  C3. For a model with \<open>hasSchema\<close> equal to \<open>true\<close> and an attribute name absent from
  its attribute map, the write value normalizer fails \<open>E_SHOULD_BE_IGNORED\<close>, whatever
  the value (\<open>undefined\<close> included) and whatever \<open>allowCollectionAttrs\<close>. The attribute
  name is a non-empty string, as the function asserts of its argument.
\<close>

theorem strict_schema_unknown_ignored:
  assumes "supposedAttrName \<noteq> []"
    and "orm modelIdentity = Some m"
    and "hasSchema m = JBool True"
    and "attributes m supposedAttrName = None"
  shows "normalizeValueToSet P v supposedAttrName modelIdentity orm allowCollectionAttrs =
           Inl (flaverr ''E_SHOULD_BE_IGNORED'' (Error msgSchemaTrueUnknown))"
  using assms by (simp add: normalizeValueToSet_def lookup_defs error_defs)

theorem strict_schema_unknown_ignored_witness:
  "normalizeValueToSet specPrims (JNum 7) ''extra'' ''user'' demoOrm False =
     Inl (flaverr ''E_SHOULD_BE_IGNORED'' (Error msgSchemaTrueUnknown))
   \<and> normalizeValueToSet specPrims JUndefined ''extra'' ''user'' demoOrm True =
     Inl (flaverr ''E_SHOULD_BE_IGNORED'' (Error msgSchemaTrueUnknown))"
  using strict_schema_unknown_ignored
          [of "''extra''" demoOrm "''user''" userModel specPrims "JNum 7" False]
        strict_schema_unknown_ignored
          [of "''extra''" demoOrm "''user''" userModel specPrims JUndefined True]
  by (simp add: demo_defs)

subsection \<open>Writes: singular associations\<close>

text \<open>
  C6. For a singular association attribute (declared, not the primary key, \<open>model\<close>
  set and \<open>collection\<close> not) of a model that passes the schema-mode check, writing \<open>null\<close>
  fails \<open>E_HIGHLY_IRREGULAR\<close> when the attribute is required and returns \<open>null\<close> when
  it is not.
\<close>

theorem singular_null:
  assumes "supposedAttrName \<noteq> []"
    and "orm modelIdentity = Some m"
    and "attributes m supposedAttrName = Some a"
    and "hasSchema m = JBool True
         \<or> (hasSchema m = JBool False \<and> isValidAttributeName P supposedAttrName)"
    and "primaryKey m \<noteq> supposedAttrName"
    and "\<not> truthy (collection a)"
    and "truthy (model a)"
  shows "normalizeValueToSet P JNull supposedAttrName modelIdentity orm allowCollectionAttrs =
           (if required a
            then Inl (flaverr ''E_HIGHLY_IRREGULAR''
                       (Error (msgNullRequiredAssoc supposedAttrName)))
            else Inr JNull)"
  using assms by (auto simp add: normalizeValueToSet_def lookup_defs)

theorem singular_null_witness:
  "normalizeValueToSet specPrims JNull ''owner'' ''pet'' demoOrm False = Inr JNull
   \<and> normalizeValueToSet specPrims JNull ''keeper'' ''pet'' demoOrm False =
       Inl (flaverr ''E_HIGHLY_IRREGULAR'' (Error (msgNullRequiredAssoc ''keeper'')))"
  using singular_null [of "''owner''" demoOrm "''pet''" petModel "modelAttr ''user''"
                          specPrims False]
        singular_null [of "''keeper''" demoOrm "''pet''" petModel
                          "(modelAttr ''user'')\<lparr> required := True \<rparr>" specPrims False]
  by (simp add: demo_defs truthy_def)

subsection \<open>Writes: undeclared attributes of a loose schema\<close>




subsection \<open>Writes: null for a typed plain attribute\<close>

text \<open>
  C2, as amended. For a plain attribute (declared, not the primary key, neither
  \<open>model\<close> nor \<open>collection\<close> set) whose declared type is neither \<open>json\<close> nor
  \<open>ref\<close> and that is not required, writing \<open>null\<close> fails \<open>E_INVALID\<close> with the
  message of \<open>msgNullNotAllowed\<close>, which names the base value of the type
  (\<open>getBaseValuePhrase\<close>: the empty string for \<open>string\<close>, zero for \<open>number\<close>, the
  result of \<open>rttc.coerce\<close> otherwise). The type validator is not consulted: the result
  is the same whatever \<open>rttc.validate\<close> does.
\<close>

theorem null_for_typed_optional:
  assumes "supposedAttrName \<noteq> []"
    and "orm modelIdentity = Some m"
    and "attributes m supposedAttrName = Some a"
    and "hasSchema m = JBool True
         \<or> (hasSchema m = JBool False \<and> isValidAttributeName P supposedAttrName)"
    and "primaryKey m \<noteq> supposedAttrName"
    and "\<not> truthy (collection a)"
    and "\<not> truthy (model a)"
    and "truthy (type a)"
    and "type a \<noteq> Some ''json''"
    and "type a \<noteq> Some ''ref''"
    and "\<not> required a"
  shows "normalizeValueToSet (P\<lparr> rttc_validate := f \<rparr>) JNull supposedAttrName modelIdentity orm
           allowCollectionAttrs =
         Inl (flaverr ''E_INVALID'' (Error (msgNullNotAllowed P supposedAttrName a)))"
  using assms
  by (auto simp add: normalizeValueToSet_def lookup_defs normalizePlainValue_def
        isProvidingNullForIncompatibleOptionalAttr_def msgNullNotAllowed_def
        getBaseValuePhrase_def)

theorem null_for_typed_optional_witness:
  "normalizeValueToSet specPrims JNull ''nickname'' ''user'' demoOrm False =
     Inl (flaverr ''E_INVALID''
           (Error (msgNullNotAllowed specPrims ''nickname'' (plainAttr ''string''))))
   \<and> normalizeValueToSet specPrims JNull ''age'' ''user'' demoOrm False =
     Inl (flaverr ''E_INVALID''
           (Error (msgNullNotAllowed specPrims ''age'' (plainAttr ''number''))))
   \<and> getBaseValuePhrase specPrims ''string'' = ''`'' @ [CHR 0x27, CHR 0x27] @ ''` (empty string)''
   \<and> getBaseValuePhrase specPrims ''number'' = ''`0` (zero)''"
  using null_for_typed_optional [of "''nickname''" demoOrm "''user''" userModel
          "plainAttr ''string''" specPrims specValidate False]
        null_for_typed_optional [of "''age''" demoOrm "''user''" userModel
          "plainAttr ''number''" specPrims specValidate False]
  by (simp add: demo_defs truthy_def specPrims_def getBaseValuePhrase_def)

text \<open>
  For a required plain attribute the special case does not apply: \<open>null\<close> goes to the
  type validator like any other value.
\<close>

lemma null_for_typed_required:
  assumes "supposedAttrName \<noteq> []"
    and "orm modelIdentity = Some m"
    and "attributes m supposedAttrName = Some a"
    and "hasSchema m = JBool True
         \<or> (hasSchema m = JBool False \<and> isValidAttributeName P supposedAttrName)"
    and "primaryKey m \<noteq> supposedAttrName"
    and "\<not> truthy (collection a)"
    and "\<not> truthy (model a)"
    and "truthy (type a)"
    and "required a"
  shows "normalizeValueToSet P JNull supposedAttrName modelIdentity orm allowCollectionAttrs =
         (case rttc_validate P (type a) JNull of
            Inl e \<Rightarrow> Inl e
          | Inr v' \<Rightarrow> checkRules P v' supposedAttrName a)"
  using assms
  by (auto simp add: normalizeValueToSet_def lookup_defs normalizePlainValue_def
        isProvidingNullForIncompatibleOptionalAttr_def)

text \<open>
  C2 as stated fails for a required attribute: \<open>name\<close> of \<open>user\<close> is a required
  \<open>string\<close>, and writing \<open>null\<close> fails with the type validator's own error, not with
  the message that names the base value.
\<close>

theorem null_for_typed_required_counterexample:
  "normalizeValueToSet specPrims JNull ''name'' ''user'' demoOrm False =
     Inl (flaverr ''E_INVALID'' (Error ''Invalid value for the expected type.''))
   \<and> normalizeValueToSet specPrims JNull ''name'' ''user'' demoOrm False \<noteq>
     Inl (flaverr ''E_INVALID''
           (Error (msgNullNotAllowed specPrims ''name''
                    ((plainAttr ''string'')\<lparr> required := True \<rparr>))))"
  by (simp add: normalizeValueToSet_def lookup_defs normalizePlainValue_def
        isProvidingNullForIncompatibleOptionalAttr_def demo_defs truthy_def
        specPrims_def specValidate_def specInvalid_def error_defs msgNullNotAllowed_def)

subsection \<open>Writes: plural associations\<close>

lemma normalizeEachPk_all_valid:
  "(\<And>x. x \<in> set xs \<Longrightarrow> \<exists>y. normalizePkValue P x ty = Inr y)
   \<Longrightarrow> \<exists>ys. normalizeEachPk P xs ty = Inr ys \<and> length ys = length xs"
proof (induction xs)
  case Nil
  then show ?case by simp
next
  case (Cons x xs)
  from Cons.prems obtain y where y: "normalizePkValue P x ty = Inr y" by auto
  from Cons.IH Cons.prems obtain ys where
    ys: "normalizeEachPk P xs ty = Inr ys" "length ys = length xs" by auto
  from y ys show ?case by simp
qed

lemma normalizeEachPk_error:
  "normalizeEachPk P xs ty = Inl e \<Longrightarrow> \<exists>x \<in> set xs. normalizePkValue P x ty = Inl e"
  by (induction xs) (auto split: sum.splits)

lemma normalizeEachPk_some_invalid:
  "x \<in> set xs \<Longrightarrow> normalizePkValue P x ty = Inl e0
   \<Longrightarrow> \<exists>e. normalizeEachPk P xs ty = Inl e"
  by (induction xs) (auto split: sum.splits)

text \<open>
  C5, as amended. For a plural association attribute (declared, not the primary key,
  \<open>collection\<close> set) of a model that passes the schema-mode check, whose target model has a
  primary key of type \<open>ty\<close>: with \<open>allowCollectionAttrs\<close> false, every value other
  than \<open>undefined\<close> fails \<open>E_HIGHLY_IRREGULAR\<close>; with \<open>allowCollectionAttrs\<close> true, an array whose elements
  are all accepted by the primary-key coercer at \<open>ty\<close> succeeds with an array of the
  same length, and an array with an element the coercer rejects (with its
  \<open>E_INVALID_PK_VALUE\<close>) fails \<open>E_HIGHLY_IRREGULAR\<close>.
\<close>

theorem plural_association_write:
  assumes "supposedAttrName \<noteq> []"
    and "orm modelIdentity = Some m"
    and "attributes m supposedAttrName = Some a"
    and "hasSchema m = JBool True
         \<or> (hasSchema m = JBool False \<and> isValidAttributeName P supposedAttrName)"
    and "primaryKey m \<noteq> supposedAttrName"
    and "truthy (collection a)"
    and "pkTypeOf (the (collection a)) orm = Inr ty"
  shows "(v \<noteq> JUndefined \<longrightarrow>
            normalizeValueToSet P v supposedAttrName modelIdentity orm False =
              Inl (flaverr ''E_HIGHLY_IRREGULAR''
                    (Error (msgNoCollectionAttrs P supposedAttrName v))))
       \<and> ((\<forall>x \<in> set xs. \<exists>y. normalizePkValue P x ty = Inr y) \<longrightarrow>
            (\<exists>ys. normalizeValueToSet P (JArr xs) supposedAttrName modelIdentity orm True =
                     Inr (JArr ys) \<and> length ys = length xs))
       \<and> ((\<exists>x \<in> set xs. \<exists>e. normalizePkValue P x ty = Inl e) \<and>
           (\<forall>x \<in> set xs. \<forall>e. normalizePkValue P x ty = Inl e
                              \<longrightarrow> code e = Some ''E_INVALID_PK_VALUE'') \<longrightarrow>
            normalizeValueToSet P (JArr xs) supposedAttrName modelIdentity orm True =
              Inl (flaverr ''E_HIGHLY_IRREGULAR''
                    (Error (msgBadCollection P supposedAttrName (JArr xs)))))"
proof (intro conjI impI)
  assume "v \<noteq> JUndefined"
  with assms show "normalizeValueToSet P v supposedAttrName modelIdentity orm False =
      Inl (flaverr ''E_HIGHLY_IRREGULAR'' (Error (msgNoCollectionAttrs P supposedAttrName v)))"
    by (auto simp add: normalizeValueToSet_def getModel_def getAttribute_def)
next
  assume "\<forall>x \<in> set xs. \<exists>y. normalizePkValue P x ty = Inr y"
  then obtain ys where ys: "normalizeEachPk P xs ty = Inr ys" "length ys = length xs"
    using normalizeEachPk_all_valid [of xs P ty] by auto
  with assms have "normalizeValueToSet P (JArr xs) supposedAttrName modelIdentity orm True =
      Inr (JArr ys)"
    by (auto simp add: normalizeValueToSet_def getModel_def getAttribute_def
          catchInvalidPk_def normalizePkValues_def)
  with ys show "\<exists>ys. normalizeValueToSet P (JArr xs) supposedAttrName modelIdentity orm True =
      Inr (JArr ys) \<and> length ys = length xs" by blast
next
  assume bad: "(\<exists>x \<in> set xs. \<exists>e. normalizePkValue P x ty = Inl e) \<and>
     (\<forall>x \<in> set xs. \<forall>e. normalizePkValue P x ty = Inl e
                        \<longrightarrow> code e = Some ''E_INVALID_PK_VALUE'')"
  then obtain e where e: "normalizeEachPk P xs ty = Inl e"
    using normalizeEachPk_some_invalid [of _ xs P ty] by blast
  then have "code e = Some ''E_INVALID_PK_VALUE''"
    using bad normalizeEachPk_error [of P xs ty e] by blast
  with e assms show "normalizeValueToSet P (JArr xs) supposedAttrName modelIdentity orm True =
      Inl (flaverr ''E_HIGHLY_IRREGULAR''
            (Error (msgBadCollection P supposedAttrName (JArr xs))))"
    by (auto simp add: normalizeValueToSet_def getModel_def getAttribute_def
          catchInvalidPk_def normalizePkValues_def)
qed

theorem plural_association_write_witness:
  "normalizeValueToSet specPrims (JArr [JNum 1, JNum 2]) ''pets'' ''user'' demoOrm False =
     Inl (flaverr ''E_HIGHLY_IRREGULAR''
           (Error (msgNoCollectionAttrs specPrims ''pets'' (JArr [JNum 1, JNum 2]))))
   \<and> (\<exists>ys. normalizeValueToSet specPrims (JArr [JStr ''1'', JStr ''2'']) ''pets'' ''user''
              demoOrm True = Inr (JArr ys) \<and> length ys = 2)
   \<and> normalizeValueToSet specPrims (JArr [JNum 1, JStr ''x'']) ''pets'' ''user'' demoOrm True =
     Inl (flaverr ''E_HIGHLY_IRREGULAR''
           (Error (msgBadCollection specPrims ''pets'' (JArr [JNum 1, JStr ''x'']))))"
proof -
  have h: "''pets'' \<noteq> []" "demoOrm ''user'' = Some userModel"
      "attributes userModel ''pets'' = Some (collectionAttr ''pet'')"
      "hasSchema userModel = JBool True
       \<or> (hasSchema userModel = JBool False \<and> isValidAttributeName specPrims ''pets'')"
      "primaryKey userModel \<noteq> ''pets''"
      "truthy (collection (collectionAttr ''pet''))"
      "pkTypeOf (the (collection (collectionAttr ''pet''))) demoOrm = Inr (Some ''number'')"
    by (simp_all add: lookup_defs demo_defs truthy_def)
  note at_pets = plural_association_write [OF h]
  have valid: "\<forall>x \<in> set [JStr ''1'', JStr ''2''].
                 \<exists>y. normalizePkValue specPrims x (Some ''number'') = Inr y"
    by (simp add: spec_defs)
  have invalid: "(\<exists>x \<in> set [JNum 1, JStr ''x''].
                    \<exists>e. normalizePkValue specPrims x (Some ''number'') = Inl e)
       \<and> (\<forall>x \<in> set [JNum 1, JStr ''x'']. \<forall>e.
             normalizePkValue specPrims x (Some ''number'') = Inl e
             \<longrightarrow> code e = Some ''E_INVALID_PK_VALUE'')"
    by (auto simp add: spec_defs error_defs)
  have a: "normalizeValueToSet specPrims (JArr [JNum 1, JNum 2]) ''pets'' ''user'' demoOrm False =
     Inl (flaverr ''E_HIGHLY_IRREGULAR''
           (Error (msgNoCollectionAttrs specPrims ''pets'' (JArr [JNum 1, JNum 2]))))"
    using at_pets [of "JArr [JNum 1, JNum 2]" "[]"] by simp
  have b: "\<exists>ys. normalizeValueToSet specPrims (JArr [JStr ''1'', JStr ''2'']) ''pets'' ''user''
              demoOrm True = Inr (JArr ys) \<and> length ys = 2"
    using at_pets [of JNull "[JStr ''1'', JStr ''2'']"] valid by auto
  have c: "normalizeValueToSet specPrims (JArr [JNum 1, JStr ''x'']) ''pets'' ''user'' demoOrm True =
     Inl (flaverr ''E_HIGHLY_IRREGULAR''
           (Error (msgBadCollection specPrims ''pets'' (JArr [JNum 1, JStr ''x'']))))"
    using at_pets [of JNull "[JNum 1, JStr ''x'']"] invalid by blast
  from a b c show ?thesis by blast
qed

text \<open>
  C5 as stated fails at the value \<open>undefined\<close>: with \<open>allowCollectionAttrs\<close> false the
  write to the plural association \<open>pets\<close> fails \<open>E_SHOULD_BE_IGNORED\<close>, not
  \<open>E_HIGHLY_IRREGULAR\<close>.
\<close>

theorem collection_undefined_counterexample:
  "normalizeValueToSet specPrims JUndefined ''pets'' ''user'' demoOrm False =
     Inl (JSError (Some ''E_SHOULD_BE_IGNORED'') msgUndefined None)"
  by (simp add: normalizeValueToSet_def lookup_defs error_defs demo_defs)

subsection \<open>Filters: singular associations\<close>

text \<open>
  C7. For a singular association attribute (declared, \<open>model\<close> set and \<open>collection\<close>
  not) whose target model has a primary key of type \<open>ty\<close>, and a filter value that is
  not \<open>null\<close> (nor \<open>undefined\<close>, which the function asserts of its argument), the
  filter value normalizer returns what \<open>rttc.validate\<close> returns at \<open>ty\<close>, and fails
  \<open>E_VALUE_NOT_USABLE\<close> exactly when that validation fails (with \<open>E_INVALID\<close>, the
  one error of its contract). The primary-key coercer plays no part: the result is the
  same whatever \<open>normalizePkValue\<close> is.
\<close>

theorem filter_singular_uses_loose_validation:
  assumes "v \<noteq> JUndefined"
    and "v \<noteq> JNull"
    and "orm modelIdentity = Some m"
    and "attributes m attrName = Some a"
    and "\<not> truthy (collection a)"
    and "truthy (model a)"
    and "pkTypeOf (the (model a)) orm = Inr ty"
    and "\<forall>e. rttc_validate P ty v = Inl e \<longrightarrow> code e = Some ''E_INVALID''"
  shows "normalizeVsAttribute (P\<lparr> normalizePkValue := f \<rparr>) v attrName modelIdentity orm =
           (case rttc_validate P ty v of
              Inr v' \<Rightarrow> Inr v'
            | Inl e \<Rightarrow>
                Inl (flaverr ''E_VALUE_NOT_USABLE''
                      (Error (msgFilterNotPk attrName (the (model a)) (message e)))))"
  using assms
  by (auto simp add: normalizeVsAttribute_def getModel_def validateForFilter_def
        split: sum.splits)

theorem filter_singular_uses_loose_validation_witness:
  "normalizeVsAttribute specPrims (JNum 3.5) ''owner'' ''pet'' demoOrm = Inr (JNum 3.5)
   \<and> normalizePkValue specPrims (JNum 3.5) (Some ''number'') = specInvalidPk
   \<and> normalizeVsAttribute specPrims (JStr ''12'') ''owner'' ''pet'' demoOrm = Inr (JNum 12)
   \<and> normalizeVsAttribute specPrims (JBool True) ''owner'' ''pet'' demoOrm =
       Inl (flaverr ''E_VALUE_NOT_USABLE''
             (Error (msgFilterNotPk ''owner'' ''user'' ''Invalid value for the expected type.'')))"
  using filter_singular_uses_loose_validation [of "JNum 3.5" demoOrm "''pet''" petModel
          "''owner''" "modelAttr ''user''" "Some ''number''" specPrims specNormalizePkValue]
        filter_singular_uses_loose_validation [of "JStr ''12''" demoOrm "''pet''" petModel
          "''owner''" "modelAttr ''user''" "Some ''number''" specPrims specNormalizePkValue]
        filter_singular_uses_loose_validation [of "JBool True" demoOrm "''pet''" petModel
          "''owner''" "modelAttr ''user''" "Some ''number''" specPrims specNormalizePkValue]
  by (simp add: demo_defs truthy_def lookup_defs spec_defs error_defs)

subsection \<open>Writes: the branches of the normalizer\<close>

text \<open>
  What \<open>normalizeValueToSet\<close> comes to for an unregistered model, for an undeclared
  attribute and for a declared one.
\<close>

lemma unregistered_model:
  assumes "orm modelIdentity = None"
  shows "normalizeValueToSet P v supposedAttrName modelIdentity orm allowCollectionAttrs =
           (if supposedAttrName = [] then Inl (AssertionError msgAttrNameEmpty)
            else Inl (Error (''Consistency violation: '' @ ''No such model (`'' @ modelIdentity
                             @ ''`) has been registered.'')))"
  using assms by (simp add: normalizeValueToSet_def lookup_defs error_defs)

lemma undeclared_attribute:
  assumes "orm modelIdentity = Some m" and "attributes m supposedAttrName = None"
  shows "normalizeValueToSet P v supposedAttrName modelIdentity orm allowCollectionAttrs =
           (if supposedAttrName = [] then Inl (AssertionError msgAttrNameEmpty)
            else if hasSchema m = JBool True
              then Inl (flaverr ''E_SHOULD_BE_IGNORED'' (Error msgSchemaTrueUnknown))
            else if hasSchema m = JBool False \<and> \<not> isValidAttributeName P supposedAttrName
              then Inl (flaverr ''E_HIGHLY_IRREGULAR'' (Error msgBadAttrName))
            else if hasSchema m \<noteq> JBool False
              then Inl (Error (msgHasSchemaUnset P modelIdentity (hasSchema m)))
            else if v = JUndefined
              then Inl (flaverr ''E_SHOULD_BE_IGNORED'' (Error msgUndefined))
            else rttc_validate P (Some ''json'') v)"
  using assms by (simp add: normalizeValueToSet_def lookup_defs error_defs)

lemma declared_attribute:
  assumes "orm modelIdentity = Some m" and "attributes m supposedAttrName = Some a"
  shows "normalizeValueToSet P v supposedAttrName modelIdentity orm allowCollectionAttrs =
           (if supposedAttrName = [] then Inl (AssertionError msgAttrNameEmpty)
            else if hasSchema m = JBool False \<and> \<not> isValidAttributeName P supposedAttrName
              then Inl (flaverr ''E_HIGHLY_IRREGULAR'' (Error msgBadAttrName))
            else if hasSchema m \<noteq> JBool True \<and> hasSchema m \<noteq> JBool False
              then Inl (Error (msgHasSchemaUnset P modelIdentity (hasSchema m)))
            else if v = JUndefined
              then Inl (flaverr ''E_SHOULD_BE_IGNORED'' (Error msgUndefined))
            else if primaryKey m = supposedAttrName
              then catchInvalidPk (normalizePkValue P v (type a)) msgInvalidPk
            else if truthy (collection a) then
              (if \<not> allowCollectionAttrs
               then Inl (flaverr ''E_HIGHLY_IRREGULAR''
                          (Error (msgNoCollectionAttrs P supposedAttrName v)))
               else catchInvalidPk
                      (case pkTypeOf (the (collection a)) orm of
                         Inl e \<Rightarrow> Inl e
                       | Inr ty \<Rightarrow> normalizePkValues P v ty)
                      (\<lambda>emsg. msgBadCollection P supposedAttrName v))
            else if truthy (model a) then
              (if v = JNull then
                 (if required a
                  then Inl (flaverr ''E_HIGHLY_IRREGULAR''
                             (Error (msgNullRequiredAssoc supposedAttrName)))
                  else Inr v)
               else catchInvalidPk
                      (case pkTypeOf (the (model a)) orm of
                         Inl e \<Rightarrow> Inl e
                       | Inr ty \<Rightarrow> normalizePkValue P v ty)
                      (msgBadAssocId supposedAttrName))
            else normalizePlainValue P v supposedAttrName a)"
  using assms by (simp add: normalizeValueToSet_def getModel_def getAttribute_def)

lemma plain_branch:
  assumes "supposedAttrName \<noteq> []"
    and "orm modelIdentity = Some m"
    and "attributes m supposedAttrName = Some a"
    and "hasSchema m = JBool True
         \<or> (hasSchema m = JBool False \<and> isValidAttributeName P supposedAttrName)"
    and "primaryKey m \<noteq> supposedAttrName"
    and "\<not> truthy (collection a)"
    and "\<not> truthy (model a)"
    and "v \<noteq> JUndefined"
  shows "normalizeValueToSet P v supposedAttrName modelIdentity orm allowCollectionAttrs =
           normalizePlainValue P v supposedAttrName a"
  using assms by (auto simp add: normalizeValueToSet_def lookup_defs)

lemma checkRules_Inr: "checkRules P w attrName a = Inr v' \<Longrightarrow> v' = w"
  by (auto simp add: checkRules_def split: option.splits if_splits sum.splits)

lemma normalizePlainValue_Inr:
  assumes "normalizePlainValue P v attrName a = Inr v'"
  shows "truthy (type a)
       \<and> \<not> (v = JStr [] \<and> (autoCreatedAt a \<or> autoUpdatedAt a))
       \<and> \<not> isProvidingNullForIncompatibleOptionalAttr v a
       \<and> rttc_validate P (type a) v = Inr v'
       \<and> checkRules P v' attrName a = Inr v'"
proof -
  from assms have t: "truthy (type a)"
      and g1: "\<not> (v = JStr [] \<and> (autoCreatedAt a \<or> autoUpdatedAt a))"
      and g2: "\<not> isProvidingNullForIncompatibleOptionalAttr v a"
    by (auto simp add: normalizePlainValue_def split: if_splits)
  with assms obtain w where w: "rttc_validate P (type a) v = Inr w"
      and c: "checkRules P w attrName a = Inr v'"
    by (auto simp add: normalizePlainValue_def split: sum.splits)
  from c have "v' = w" by (rule checkRules_Inr)
  with t g1 g2 w c show ?thesis by simp
qed

subsection \<open>Writes: validation rules\<close>

text \<open>
  C8. For a plain attribute that declares a validation ruleset \<open>rs\<close>, and a value
  that passes the guards of the branch and that \<open>rttc.validate\<close> accepts at the
  declared type as \<open>v'\<close>: when \<open>v'\<close> is \<open>null\<close> the write returns \<open>null\<close> and
  the ruleset is not evaluated (the result is the same whatever \<open>anchor\<close> is);
  otherwise the ruleset is evaluated on \<open>v'\<close>, and if the list of violations is not
  empty the write fails \<open>E_VIOLATES_RULES\<close> carrying that whole list (two entries
  for two violated rules), and returns \<open>v'\<close> if it is empty.
\<close>

theorem rules_checked_after_validation:
  assumes "supposedAttrName \<noteq> []"
    and "orm modelIdentity = Some m"
    and "attributes m supposedAttrName = Some a"
    and "hasSchema m = JBool True
         \<or> (hasSchema m = JBool False \<and> isValidAttributeName P supposedAttrName)"
    and "primaryKey m \<noteq> supposedAttrName"
    and "\<not> truthy (collection a)"
    and "\<not> truthy (model a)"
    and "truthy (type a)"
    and "validations a = Some rs"
    and "v \<noteq> JUndefined"
    and "\<not> (v = JStr [] \<and> (autoCreatedAt a \<or> autoUpdatedAt a))"
    and "\<not> isProvidingNullForIncompatibleOptionalAttr v a"
    and "rttc_validate P (type a) v = Inr v'"
  shows "normalizeValueToSet (P\<lparr> anchor := g \<rparr>) v supposedAttrName modelIdentity orm
           allowCollectionAttrs =
           (if v' = JNull then Inr JNull
            else case g v' rs of
                   Inl e \<Rightarrow> Inl (Error (msgRulesCrashed supposedAttrName e))
                 | Inr violations \<Rightarrow>
                     if violations = [] then Inr v'
                     else Inl (JSError (Some ''E_VIOLATES_RULES'') msgViolatedRules
                                 (Some violations)))"
proof -
  have "normalizeValueToSet (P\<lparr> anchor := g \<rparr>) v supposedAttrName modelIdentity orm
           allowCollectionAttrs = normalizePlainValue (P\<lparr> anchor := g \<rparr>) v supposedAttrName a"
    using assms by (intro plain_branch) simp_all
  also have "\<dots> = checkRules (P\<lparr> anchor := g \<rparr>) v' supposedAttrName a"
    using assms by (auto simp add: normalizePlainValue_def)
  finally show ?thesis
    using assms by (simp add: checkRules_def split: sum.splits)
qed

theorem rules_checked_after_validation_witness:
  "normalizeValueToSet specPrims (JStr ''abc'') ''handle'' ''user'' demoOrm False =
     Inl (JSError (Some ''E_VIOLATES_RULES'') msgViolatedRules
           (Some [Violation ''minLength'' ''Value violates the `minLength` rule.'',
                  Violation ''isIn'' ''Value violates the `isIn` rule.'']))
   \<and> normalizeValueToSet specPrims (JStr ''alpha'') ''handle'' ''user'' demoOrm False =
     Inr (JStr ''alpha'')
   \<and> normalizeValueToSet specPrims JNull ''settings'' ''user'' demoOrm False = Inr JNull
   \<and> anchor specPrims JNull [(''isIn'', JArr [JStr ''on'', JStr ''off''])] =
       Inr [Violation ''isIn'' ''Value violates the `isIn` rule.'']"
proof -
  let ?handle = "(plainAttr ''string'')
      \<lparr> validations := Some [(''minLength'', JNum 5),
                             (''isIn'', JArr [JStr ''alpha'', JStr ''omega''])] \<rparr>"
  let ?settings = "(plainAttr ''json'')
      \<lparr> validations := Some [(''isIn'', JArr [JStr ''on'', JStr ''off''])] \<rparr>"
  have a: "normalizeValueToSet specPrims (JStr ''abc'') ''handle'' ''user'' demoOrm False =
     Inl (JSError (Some ''E_VIOLATES_RULES'') msgViolatedRules
           (Some [Violation ''minLength'' ''Value violates the `minLength` rule.'',
                  Violation ''isIn'' ''Value violates the `isIn` rule.'']))"
    using rules_checked_after_validation [of "''handle''" demoOrm "''user''" userModel ?handle
        specPrims "[(''minLength'', JNum 5), (''isIn'', JArr [JStr ''alpha'', JStr ''omega''])]"
        "JStr ''abc''" "JStr ''abc''" specAnchor False]
    by (simp add: demo_defs truthy_def spec_defs
          isProvidingNullForIncompatibleOptionalAttr_def)
  have b: "normalizeValueToSet specPrims (JStr ''alpha'') ''handle'' ''user'' demoOrm False =
     Inr (JStr ''alpha'')"
    using rules_checked_after_validation [of "''handle''" demoOrm "''user''" userModel ?handle
        specPrims "[(''minLength'', JNum 5), (''isIn'', JArr [JStr ''alpha'', JStr ''omega''])]"
        "JStr ''alpha''" "JStr ''alpha''" specAnchor False]
    by (simp add: demo_defs truthy_def spec_defs
          isProvidingNullForIncompatibleOptionalAttr_def)
  have c: "normalizeValueToSet specPrims JNull ''settings'' ''user'' demoOrm False = Inr JNull"
    using rules_checked_after_validation [of "''settings''" demoOrm "''user''" userModel ?settings
        specPrims "[(''isIn'', JArr [JStr ''on'', JStr ''off''])]"
        JNull JNull specAnchor False]
    by (simp add: demo_defs truthy_def spec_defs
          isProvidingNullForIncompatibleOptionalAttr_def)
  have d: "anchor specPrims JNull [(''isIn'', JArr [JStr ''on'', JStr ''off''])] =
       Inr [Violation ''isIn'' ''Value violates the `isIn` rule.'']"
    by (simp add: spec_defs)
  from a b c d show ?thesis by blast
qed

subsection \<open>Writes: idempotence on plain attributes\<close>

text \<open>
  The instance of the type validator is a projection, never returns \<open>undefined\<close>,
  returns \<open>null\<close> only at \<open>json\<close> and \<open>ref\<close>, and returns the empty string
  only for the empty string.
\<close>

lemma specValidate_projection:
  "specValidate ty x = Inr y \<Longrightarrow> specValidate ty y = Inr y"
  by (auto simp add: specValidate_def specInvalid_def split: if_splits jsval.splits)

lemma specValidate_defined: "specValidate ty x \<noteq> Inr JUndefined"
  by (auto simp add: specValidate_def specInvalid_def split: if_splits jsval.splits)

lemma specValidate_no_null:
  "ty \<noteq> Some ''json'' \<Longrightarrow> ty \<noteq> Some ''ref'' \<Longrightarrow> specValidate ty x \<noteq> Inr JNull"
  by (auto simp add: specValidate_def specInvalid_def split: if_splits jsval.splits)

lemma specValidate_no_empty:
  "specValidate ty x = Inr (JStr []) \<Longrightarrow> x = JStr []"
  by (auto simp add: specValidate_def specInvalid_def split: if_splits jsval.splits)

text \<open>
  C9. For a plain attribute, applying the write value normalizer to a value it has
  returned succeeds and returns the same value. The type validator is a parameter of
  the model, and the statement holds for every validator that, at the declared type, is a
  projection (validating a validated value returns it unchanged), never returns
  \<open>undefined\<close>, does not return \<open>null\<close> at a type other than \<open>json\<close> and
  \<open>ref\<close> (as the source says of RTTC), and, for an auto-timestamp attribute, returns
  the empty string only when given the empty string.
\<close>

theorem plain_write_idempotent:
  assumes "supposedAttrName \<noteq> []"
    and "orm modelIdentity = Some m"
    and "attributes m supposedAttrName = Some a"
    and "hasSchema m = JBool True
         \<or> (hasSchema m = JBool False \<and> isValidAttributeName P supposedAttrName)"
    and "primaryKey m \<noteq> supposedAttrName"
    and "\<not> truthy (collection a)"
    and "\<not> truthy (model a)"
    and projection: "\<forall>x y. rttc_validate P (type a) x = Inr y
                          \<longrightarrow> rttc_validate P (type a) y = Inr y"
    and defined: "\<forall>x. rttc_validate P (type a) x \<noteq> Inr JUndefined"
    and no_null: "type a \<noteq> Some ''json'' \<and> type a \<noteq> Some ''ref''
                  \<longrightarrow> (\<forall>x. rttc_validate P (type a) x \<noteq> Inr JNull)"
    and no_empty: "autoCreatedAt a \<or> autoUpdatedAt a
                   \<longrightarrow> (\<forall>x. rttc_validate P (type a) x = Inr (JStr []) \<longrightarrow> x = JStr [])"
    and first: "normalizeValueToSet P v supposedAttrName modelIdentity orm allowCollectionAttrs
                  = Inr v'"
  shows "normalizeValueToSet P v' supposedAttrName modelIdentity orm allowCollectionAttrs
           = Inr v'"
proof -
  have branch: "normalizeValueToSet P w supposedAttrName modelIdentity orm allowCollectionAttrs
                  = normalizePlainValue P w supposedAttrName a" if "w \<noteq> JUndefined" for w
    using plain_branch [of supposedAttrName orm modelIdentity m a P w allowCollectionAttrs]
      assms(1-7) that by simp
  have v: "v \<noteq> JUndefined"
    using first assms(1-4) by (auto simp add: normalizeValueToSet_def lookup_defs)
  have "normalizePlainValue P v supposedAttrName a = Inr v'"
    using first branch [OF v] by simp
  then have t: "truthy (type a)"
      and g1: "\<not> (v = JStr [] \<and> (autoCreatedAt a \<or> autoUpdatedAt a))"
      and val: "rttc_validate P (type a) v = Inr v'"
      and rules: "checkRules P v' supposedAttrName a = Inr v'"
    using normalizePlainValue_Inr by blast+
  from val defined have v': "v' \<noteq> JUndefined" by auto
  from val projection have again: "rttc_validate P (type a) v' = Inr v'" by blast
  from val g1 no_empty have e: "\<not> (v' = JStr [] \<and> (autoCreatedAt a \<or> autoUpdatedAt a))"
    by blast
  from val no_null have n: "\<not> isProvidingNullForIncompatibleOptionalAttr v' a"
    by (auto simp add: isProvidingNullForIncompatibleOptionalAttr_def)
  have "normalizePlainValue P v' supposedAttrName a = Inr v'"
    using t e n again rules by (simp add: normalizePlainValue_def)
  then show ?thesis
    using branch [OF v'] by simp
qed

theorem plain_write_idempotent_witness:
  "normalizeValueToSet specPrims (JStr ''42'') ''age'' ''user'' demoOrm False = Inr (JNum 42)
   \<and> normalizeValueToSet specPrims (JNum 42) ''age'' ''user'' demoOrm False = Inr (JNum 42)
   \<and> normalizeValueToSet specPrims (JStr ''1700'') ''createdAt'' ''pet'' demoOrm False
       = Inr (JNum 1700)
   \<and> normalizeValueToSet specPrims (JNum 1700) ''createdAt'' ''pet'' demoOrm False
       = Inr (JNum 1700)"
proof -
  let ?age = "plainAttr ''number''"
  let ?created = "(plainAttr ''number'')\<lparr> autoCreatedAt := True \<rparr>"
  have first: "normalizeValueToSet specPrims (JStr ''42'') ''age'' ''user'' demoOrm False
                 = Inr (JNum 42)"
      "normalizeValueToSet specPrims (JStr ''1700'') ''createdAt'' ''pet'' demoOrm False
                 = Inr (JNum 1700)"
    by (simp_all add: normalizeValueToSet_def lookup_defs normalizePlainValue_def checkRules_def
          isProvidingNullForIncompatibleOptionalAttr_def demo_defs truthy_def spec_defs)
  have h: "''age'' \<noteq> []" "demoOrm ''user'' = Some userModel"
      "attributes userModel ''age'' = Some ?age"
      "hasSchema userModel = JBool True
       \<or> (hasSchema userModel = JBool False \<and> isValidAttributeName specPrims ''age'')"
      "primaryKey userModel \<noteq> ''age''"
      "\<not> truthy (collection ?age)"
      "\<not> truthy (model ?age)"
    by (simp_all add: demo_defs truthy_def)
  have h': "''createdAt'' \<noteq> []" "demoOrm ''pet'' = Some petModel"
      "attributes petModel ''createdAt'' = Some ?created"
      "hasSchema petModel = JBool True
       \<or> (hasSchema petModel = JBool False \<and> isValidAttributeName specPrims ''createdAt'')"
      "primaryKey petModel \<noteq> ''createdAt''"
      "\<not> truthy (collection ?created)"
      "\<not> truthy (model ?created)"
    by (simp_all add: demo_defs truthy_def)
  have c: "\<forall>x y. rttc_validate specPrims (type a) x = Inr y
             \<longrightarrow> rttc_validate specPrims (type a) y = Inr y"
      "\<forall>x. rttc_validate specPrims (type a) x \<noteq> Inr JUndefined"
      "type a \<noteq> Some ''json'' \<and> type a \<noteq> Some ''ref''
         \<longrightarrow> (\<forall>x. rttc_validate specPrims (type a) x \<noteq> Inr JNull)"
      "autoCreatedAt a \<or> autoUpdatedAt a
         \<longrightarrow> (\<forall>x. rttc_validate specPrims (type a) x = Inr (JStr []) \<longrightarrow> x = JStr [])" for a
    using specValidate_projection specValidate_defined specValidate_no_null
      specValidate_no_empty
    by (auto simp add: specPrims_def)
  from plain_write_idempotent [of "''age''" demoOrm "''user''" userModel ?age
         specPrims "JStr ''42''" False "JNum 42"] h c first(1)
  have "normalizeValueToSet specPrims (JNum 42) ''age'' ''user'' demoOrm False = Inr (JNum 42)"
    by blast
  moreover
  from plain_write_idempotent [of "''createdAt''" demoOrm "''pet''" petModel ?created
         specPrims "JStr ''1700''" False "JNum 1700"] h' c first(2)
  have "normalizeValueToSet specPrims (JNum 1700) ''createdAt'' ''pet'' demoOrm False
          = Inr (JNum 1700)"
    by blast
  ultimately show ?thesis using first by simp
qed

subsection \<open>Writes: where a rule violation can come from\<close>

lemma normalizePkValues_error:
  assumes "normalizePkValues P v ty = Inl e"
  shows "code e = Some ''E_INVALID_PK_VALUE'' \<or> (\<exists>x. normalizePkValue P x ty = Inl e)"
  using assms normalizeEachPk_error [of P _ ty e]
  by (auto simp add: normalizePkValues_def error_defs split: jsval.splits sum.splits)

lemma catchInvalidPk_error:
  assumes "catchInvalidPk r msg = Inl e"
  shows "code e = Some ''E_HIGHLY_IRREGULAR'' \<or> r = Inl e"
  using assms by (auto simp add: catchInvalidPk_def error_defs split: sum.splits if_splits)

lemma pkTypeOf_error:
  assumes "pkTypeOf identity orm = Inl e"
  shows "code e = Some ''E_MODEL_NOT_REGISTERED'' \<or> code e = Some ''E_ATTR_NOT_REGISTERED''"
  using assms
  by (auto simp add: lookup_defs error_defs split: option.splits sum.splits)

lemma pk_lookup_then_error:
  assumes "(case pkTypeOf identity orm of Inl e \<Rightarrow> Inl e | Inr ty \<Rightarrow> f ty) = Inl e"
  shows "code e = Some ''E_MODEL_NOT_REGISTERED'' \<or> code e = Some ''E_ATTR_NOT_REGISTERED''
         \<or> (\<exists>ty. f ty = Inl e)"
  using assms pkTypeOf_error [of identity orm e] by (cases "pkTypeOf identity orm") auto

lemma normalizePlainValue_violates:
  assumes "normalizePlainValue P v attrName a = Inl e"
    and "code e = Some ''E_VIOLATES_RULES''"
    and "\<forall>ty x e. rttc_validate P ty x = Inl e \<longrightarrow> code e \<noteq> Some ''E_VIOLATES_RULES''"
  shows "validations a \<noteq> None \<and> ruleViolations e \<noteq> None"
proof -
  from assms obtain w where "checkRules P w attrName a = Inl e"
    by (auto simp add: normalizePlainValue_def error_defs split: if_splits sum.splits)
  with assms(2) show ?thesis
    by (auto simp add: checkRules_def error_defs split: if_splits sum.splits option.splits)
qed

lemma specValidate_error: "specValidate ty x = Inl e \<Longrightarrow> code e = Some ''E_INVALID''"
  by (auto simp add: specValidate_def specInvalid_def error_defs split: if_splits jsval.splits)

lemma specNormalizePkValue_error:
  "specNormalizePkValue x ty = Inl e \<Longrightarrow> code e = Some ''E_INVALID_PK_VALUE''"
  by (auto simp add: specNormalizePkValue_def specInvalidPk_def error_defs
        split: if_splits jsval.splits)

text \<open>
  C10. Whenever the write value normalizer fails with \<open>E_VIOLATES_RULES\<close>, the
  attribute is a declared plain attribute (not the primary key, not a plural and not a
  singular association) that declares a ruleset, and the error carries its list of
  violations: writes to the primary key, to an association or to an undeclared attribute
  never fail with that code, whether or not their definition declares a ruleset. The
  type validator and the primary-key coercer are parameters of the model; they are taken
  not to throw \<open>E_VIOLATES_RULES\<close> themselves (their contracts name \<open>E_INVALID\<close>
  and \<open>E_INVALID_PK_VALUE\<close>).
\<close>

theorem violates_rules_only_from_plain_branch:
  assumes validate: "\<forall>ty x e. rttc_validate P ty x = Inl e \<longrightarrow> code e \<noteq> Some ''E_VIOLATES_RULES''"
    and coerce: "\<forall>x ty e. normalizePkValue P x ty = Inl e \<longrightarrow> code e \<noteq> Some ''E_VIOLATES_RULES''"
    and fails: "normalizeValueToSet P v supposedAttrName modelIdentity orm allowCollectionAttrs
                  = Inl e"
    and rules: "code e = Some ''E_VIOLATES_RULES''"
  shows "\<exists>m a. orm modelIdentity = Some m
             \<and> attributes m supposedAttrName = Some a
             \<and> primaryKey m \<noteq> supposedAttrName
             \<and> \<not> truthy (collection a)
             \<and> \<not> truthy (model a)
             \<and> validations a \<noteq> None
             \<and> ruleViolations e \<noteq> None"
proof (cases "orm modelIdentity")
  case None
  with fails rules show ?thesis
    by (auto simp add: unregistered_model error_defs split: if_splits)
next
  case (Some m)
  show ?thesis
  proof (cases "attributes m supposedAttrName")
    case None
    with Some fails rules validate show ?thesis
      by (auto simp add: undeclared_attribute error_defs split: if_splits)
  next
    case a: (Some a)
    have run: "(if supposedAttrName = [] then Inl (AssertionError msgAttrNameEmpty)
            else if hasSchema m = JBool False \<and> \<not> isValidAttributeName P supposedAttrName
              then Inl (flaverr ''E_HIGHLY_IRREGULAR'' (Error msgBadAttrName))
            else if hasSchema m \<noteq> JBool True \<and> hasSchema m \<noteq> JBool False
              then Inl (Error (msgHasSchemaUnset P modelIdentity (hasSchema m)))
            else if v = JUndefined
              then Inl (flaverr ''E_SHOULD_BE_IGNORED'' (Error msgUndefined))
            else if primaryKey m = supposedAttrName
              then catchInvalidPk (normalizePkValue P v (type a)) msgInvalidPk
            else if truthy (collection a) then
              (if \<not> allowCollectionAttrs
               then Inl (flaverr ''E_HIGHLY_IRREGULAR''
                          (Error (msgNoCollectionAttrs P supposedAttrName v)))
               else catchInvalidPk
                      (case pkTypeOf (the (collection a)) orm of
                         Inl e \<Rightarrow> Inl e
                       | Inr ty \<Rightarrow> normalizePkValues P v ty)
                      (\<lambda>emsg. msgBadCollection P supposedAttrName v))
            else if truthy (model a) then
              (if v = JNull then
                 (if required a
                  then Inl (flaverr ''E_HIGHLY_IRREGULAR''
                             (Error (msgNullRequiredAssoc supposedAttrName)))
                  else Inr v)
               else catchInvalidPk
                      (case pkTypeOf (the (model a)) orm of
                         Inl e \<Rightarrow> Inl e
                       | Inr ty \<Rightarrow> normalizePkValue P v ty)
                      (msgBadAssocId supposedAttrName))
            else normalizePlainValue P v supposedAttrName a) = Inl e"
      using fails Some a
        declared_attribute [of orm modelIdentity m supposedAttrName a P v allowCollectionAttrs]
      by simp
    have not_coerced: "catchInvalidPk r msg \<noteq> Inl e"
      if "r = Inl e \<Longrightarrow> False" for r msg
      using that rules catchInvalidPk_error [of r msg e] by auto
    have pk: "primaryKey m \<noteq> supposedAttrName"
    proof
      assume "primaryKey m = supposedAttrName"
      with run rules
      have "catchInvalidPk (normalizePkValue P v (type a)) msgInvalidPk = Inl e"
        by (auto simp add: error_defs split: if_splits)
      moreover have "catchInvalidPk (normalizePkValue P v (type a)) msgInvalidPk \<noteq> Inl e"
        using coerce rules by (intro not_coerced) auto
      ultimately show False by simp
    qed
    have coll: "\<not> truthy (collection a)"
    proof
      assume "truthy (collection a)"
      with run rules pk
      have "catchInvalidPk
              (case pkTypeOf (the (collection a)) orm of
                 Inl e \<Rightarrow> Inl e
               | Inr ty \<Rightarrow> normalizePkValues P v ty)
              (\<lambda>emsg. msgBadCollection P supposedAttrName v) = Inl e"
        by (auto simp add: error_defs split: if_splits)
      moreover have "catchInvalidPk
              (case pkTypeOf (the (collection a)) orm of
                 Inl e \<Rightarrow> Inl e
               | Inr ty \<Rightarrow> normalizePkValues P v ty)
              (\<lambda>emsg. msgBadCollection P supposedAttrName v) \<noteq> Inl e"
      proof (intro not_coerced)
        assume "(case pkTypeOf (the (collection a)) orm of
                   Inl e \<Rightarrow> Inl e
                 | Inr ty \<Rightarrow> normalizePkValues P v ty) = Inl e"
        from pk_lookup_then_error [OF this] rules coerce show False
          using normalizePkValues_error [of P v _ e] by fastforce
      qed
      ultimately show False by simp
    qed
    have model: "\<not> truthy (model a)"
    proof
      assume "truthy (model a)"
      with run rules pk coll
      have "catchInvalidPk
              (case pkTypeOf (the (model a)) orm of
                 Inl e \<Rightarrow> Inl e
               | Inr ty \<Rightarrow> normalizePkValue P v ty)
              (msgBadAssocId supposedAttrName) = Inl e"
        by (auto simp add: error_defs split: if_splits)
      moreover have "catchInvalidPk
              (case pkTypeOf (the (model a)) orm of
                 Inl e \<Rightarrow> Inl e
               | Inr ty \<Rightarrow> normalizePkValue P v ty)
              (msgBadAssocId supposedAttrName) \<noteq> Inl e"
      proof (intro not_coerced)
        assume "(case pkTypeOf (the (model a)) orm of
                   Inl e \<Rightarrow> Inl e
                 | Inr ty \<Rightarrow> normalizePkValue P v ty) = Inl e"
        from pk_lookup_then_error [OF this] rules coerce show False by auto
      qed
      ultimately show False by simp
    qed
    from run rules pk coll model
    have "normalizePlainValue P v supposedAttrName a = Inl e"
      by (auto simp add: error_defs split: if_splits)
    from normalizePlainValue_violates [OF this rules validate] Some a pk coll model
    show ?thesis by simp
  qed
qed

theorem violates_rules_only_from_plain_branch_witness:
  "normalizeValueToSet specPrims (JStr ''abc'') ''handle'' ''user'' demoOrm False =
     Inl (JSError (Some ''E_VIOLATES_RULES'') msgViolatedRules
           (Some [Violation ''minLength'' ''Value violates the `minLength` rule.'',
                  Violation ''isIn'' ''Value violates the `isIn` rule.'']))
   \<and> (\<exists>m a. demoOrm ''user'' = Some m
          \<and> attributes m ''handle'' = Some a
          \<and> primaryKey m \<noteq> ''handle''
          \<and> \<not> truthy (collection a)
          \<and> \<not> truthy (model a)
          \<and> validations a \<noteq> None)"
proof -
  let ?e = "JSError (Some ''E_VIOLATES_RULES'') msgViolatedRules
           (Some [Violation ''minLength'' ''Value violates the `minLength` rule.'',
                  Violation ''isIn'' ''Value violates the `isIn` rule.''])"
  have fails: "normalizeValueToSet specPrims (JStr ''abc'') ''handle'' ''user'' demoOrm False
                 = Inl ?e"
    by (simp add: normalizeValueToSet_def lookup_defs normalizePlainValue_def checkRules_def
          isProvidingNullForIncompatibleOptionalAttr_def demo_defs truthy_def spec_defs)
  have c: "\<forall>ty x e. rttc_validate specPrims ty x = Inl e
                      \<longrightarrow> code e \<noteq> Some ''E_VIOLATES_RULES''"
      "\<forall>x ty e. normalizePkValue specPrims x ty = Inl e
                      \<longrightarrow> code e \<noteq> Some ''E_VIOLATES_RULES''"
    using specValidate_error specNormalizePkValue_error
    by (auto simp add: specPrims_def)
  have "code ?e = Some ''E_VIOLATES_RULES''" by simp
  from violates_rules_only_from_plain_branch [OF c fails this] fails
  show ?thesis by blast
qed

end
